theory Spec2Isabelle
  imports Main
begin

section \<open>The build driver \<open>tools/buildgo/main.go\<close>\<close>

text \<open>
  The driver keeps three package-level caches (\<open>cachedExePaths\<close>, \<open>createdDirs\<close>,
  \<open>fileInfoCache\<close>) and the switch \<open>alwaysRebuild\<close>. They are the fields of the record
  \<open>state\<close> below, which every function takes and returns. What lies outside the process
  (the file system that \<open>os.Stat\<close> reads, the clock behind \<open>time.Now\<close>, the outcome of
  \<open>os.MkdirAll\<close>) and the library functions that are not defined here (those of
  \<open>path/filepath\<close>, and \<open>strings.ToUpper\<close>) are the fields of the record \<open>world\<close>.
  \<open>fatalf\<close> (which ends in \<open>os.Exit(1)\<close>) and a run-time panic are values of \<open>error\<close>.
  Output written with \<open>fmt.Printf\<close> is not modelled.
\<close>

subsection \<open>Time\<close>

text \<open>
  A \<open>time.Time\<close> is an instant in nanoseconds, a \<open>time.Duration\<close> a signed 64-bit count
  of nanoseconds. \<open>Time.Sub\<close> saturates at the largest and the smallest duration. An
  instant is one number: the monotonic reading that a value of \<open>time.Now()\<close> carries
  beside its wall-clock reading is not kept apart.
\<close>

type_synonym time = int

definition maxDuration :: int where
  "maxDuration = 2 ^ 63 - 1"

definition minDuration :: int where
  "minDuration = - (2 ^ 63)"

definition Sub :: "time \<Rightarrow> time \<Rightarrow> int" where
  "Sub t u =
     (let d = t - u
      in if maxDuration < d then maxDuration
         else if d < minDuration then minDuration
         else d)"

subsection \<open>Data\<close>

text \<open>What the driver reads of an \<open>os.FileInfo\<close>: \<open>Mode().IsRegular()\<close> and \<open>ModTime()\<close>.\<close>

record FileInfo =
  IsRegular :: bool
  ModTime :: time

record EnvVar =
  Name :: string
  Val :: string

record Args =
  args :: "string list"

text \<open>An external process handed to \<open>runExe\<close>: the executable's name, its environment
  and its arguments (after the program name).\<close>

record BuildTask =
  taskExe :: string
  taskEnv :: "string list"
  taskArgs :: "string list"

datatype error = Fatal | IndexOutOfRange

record world =
  os_Stat :: "string \<rightharpoonup> FileInfo"
  time_Now :: "nat \<Rightarrow> time"
  os_MkdirAll :: "string \<Rightarrow> bool"
  filepath_Join :: "string \<Rightarrow> string \<Rightarrow> string"
  filepath_Dir :: "string \<Rightarrow> string"
  strings_ToUpper :: "string \<Rightarrow> string"

text \<open>
  \<open>os_Stat w p\<close> is \<open>None\<close> when \<open>os.Stat(p)\<close> returns an error. \<open>time_Now w k\<close> is what
  the \<open>k\<close>-th reading of the clock returns; the field \<open>ticks\<close> of the state counts the
  readings made so far. \<open>os_MkdirAll w d\<close> says whether \<open>os.MkdirAll(d, 0644)\<close> returns
  without an error. The last three fields of the state are ghost fields: the calls of
  \<open>os.MkdirAll\<close>, the calls of \<open>lookupInEnvPathUncached\<close> and the tasks launched by
  \<open>runExe\<close>, each in order. The file system is the same at every \<open>os.Stat\<close> of a run:
  the directories that \<open>os.MkdirAll\<close> creates and the files that the launched
  processes write are not added to it.
\<close>

record state =
  alwaysRebuild :: bool
  cachedExePaths :: "string \<rightharpoonup> string"
  createdDirs :: "string \<rightharpoonup> bool"
  fileInfoCache :: "string \<rightharpoonup> FileInfo"
  ticks :: nat
  mkdirCalls :: "string list"
  scans :: "string list"
  launched :: "BuildTask list"

text \<open>The state after \<open>init()\<close>, with \<open>alwaysRebuild\<close> at its declared value.\<close>

definition init :: state where
  "init = \<lparr> alwaysRebuild = False, cachedExePaths = Map.empty, createdDirs = Map.empty,
            fileInfoCache = Map.empty, ticks = 0, mkdirCalls = [], scans = [],
            launched = [] \<rparr>"

subsection \<open>The file-information cache\<close>

definition fileExists :: "world \<Rightarrow> string \<Rightarrow> state \<Rightarrow> bool \<times> state" where
  "fileExists w path s =
     (case fileInfoCache s path of
        Some fi \<Rightarrow> (IsRegular fi, s)
      | None \<Rightarrow>
          (case os_Stat w path of
             None \<Rightarrow> (False, s)
           | Some fi \<Rightarrow> (IsRegular fi, s\<lparr>fileInfoCache := (fileInfoCache s)(path \<mapsto> fi)\<rparr>)))"

definition getModTime :: "world \<Rightarrow> string \<Rightarrow> time \<Rightarrow> state \<Rightarrow> time \<times> state" where
  "getModTime w path def s =
     (case fileInfoCache s path of
        Some fi \<Rightarrow> (ModTime fi, s)
      | None \<Rightarrow>
          (case os_Stat w path of
             None \<Rightarrow> (def, s)
           | Some fi \<Rightarrow> (ModTime fi, s\<lparr>fileInfoCache := (fileInfoCache s)(path \<mapsto> fi)\<rparr>)))"

text \<open>One evaluation of \<open>time.Now()\<close>.\<close>

definition now :: "world \<Rightarrow> state \<Rightarrow> time \<times> state" where
  "now w s = (time_Now w (ticks s), s\<lparr>ticks := Suc (ticks s)\<rparr>)"

subsection \<open>The freshness test\<close>

text \<open>The loop over \<open>deps\<close> in \<open>isOutdated\<close>; \<open>True\<close> is the early \<open>return true\<close>.\<close>

fun isOutdated_deps :: "world \<Rightarrow> time \<Rightarrow> string list \<Rightarrow> state \<Rightarrow> bool \<times> state" where
  "isOutdated_deps w srcTime [] s = (False, s)"
| "isOutdated_deps w srcTime (path # deps) s =
     (let (t, s1) = now w s;
          (pathTime, s2) = getModTime w path t s1
      in if 0 < Sub srcTime pathTime then (True, s2)
         else isOutdated_deps w srcTime deps s2)"

definition isOutdated :: "world \<Rightarrow> string \<Rightarrow> string \<Rightarrow> string list \<Rightarrow> state \<Rightarrow> bool \<times> state" where
  "isOutdated w src dst deps s =
     (if alwaysRebuild s then (True, s)
      else
        (let (ex, s1) = fileExists w dst s
         in if \<not> ex then (True, s1)
            else
              (let (t0, s2) = now w s1;
                   (dstTime, s3) = getModTime w dst t0 s2;
                   (t1, s4) = now w s3;
                   (srcTime, s5) = getModTime w src t1 s4
               in if 0 < Sub srcTime dstTime then (True, s5)
                  else isOutdated_deps w srcTime deps s5)))"

subsection \<open>Strings\<close>

text \<open>
  Strings are byte sequences. \<open>ToLower\<close> maps the ASCII letters and keeps every other
  byte. \<open>strings.ToLower\<close> also maps letters beyond ASCII; no such letter has a letter
  of \<open>path\<close> as its lower case, and the program only compares the result with \<open>path\<close>
  (in \<open>lookupInEnvPathUncached\<close>), so that comparison is decided in the same way.
  \<open>strings.ToUpper\<close>, whose result \<open>envToMap\<close> stores as a key, is the field
  \<open>strings_ToUpper\<close> of the world; \<open>ToUpperASCII\<close> is what it does on ASCII strings.
\<close>

definition toLowerChar :: "char \<Rightarrow> char" where
  "toLowerChar c =
     (let n = (of_char c :: nat)
      in if 65 \<le> n \<and> n \<le> 90 then char_of (n + 32) else c)"

definition toUpperChar :: "char \<Rightarrow> char" where
  "toUpperChar c =
     (let n = (of_char c :: nat)
      in if 97 \<le> n \<and> n \<le> 122 then char_of (n - 32) else c)"

definition ToLower :: "string \<Rightarrow> string" where
  "ToLower s = map toLowerChar s"

definition ToUpperASCII :: "string \<Rightarrow> string" where
  "ToUpperASCII s = map toUpperChar s"

text \<open>\<open>strings.SplitN(s, sep, 2)\<close> for a separator of one byte: the whole string when the
  separator does not occur, else the parts before and after its first occurrence.\<close>

definition SplitN2 :: "char \<Rightarrow> string \<Rightarrow> string list" where
  "SplitN2 sep s =
     (if sep \<in> set s
      then [takeWhile (\<lambda>c. c \<noteq> sep) s, tl (dropWhile (\<lambda>c. c \<noteq> sep) s)]
      else [s])"

text \<open>\<open>strings.Split(s, sep)\<close> for a separator of one byte.\<close>

fun Split :: "char \<Rightarrow> string \<Rightarrow> string list" where
  "Split sep [] = [[]]"
| "Split sep (c # cs) =
     (if c = sep then [] # Split sep cs
      else (case Split sep cs of
              [] \<Rightarrow> [[c]]
            | p # ps \<Rightarrow> (c # p) # ps))"

subsection \<open>Parsing an environment\<close>

text \<open>
  The loop of \<open>envToMap\<close>. The body of \<open>if len(parts) != 2\<close> is empty, so a line without
  \<open>=\<close> goes on to \<open>parts[1]\<close>, which panics.
\<close>

fun envToMap_loop ::
  "world \<Rightarrow> string list \<Rightarrow> (string \<rightharpoonup> EnvVar) \<Rightarrow> error + (string \<rightharpoonup> EnvVar)" where
  "envToMap_loop w [] res = Inr res"
| "envToMap_loop w (v # env) res =
     (if length v = 0 then envToMap_loop w env res
      else
        (case SplitN2 (CHR ''='') v of
           p0 # p1 # _ \<Rightarrow>
             envToMap_loop w env (res(strings_ToUpper w p0 \<mapsto> \<lparr> Name = p0, Val = p1 \<rparr>))
         | _ \<Rightarrow> Inl IndexOutOfRange))"

definition envToMap :: "world \<Rightarrow> string list \<Rightarrow> error + (string \<rightharpoonup> EnvVar)" where
  "envToMap w env = envToMap_loop w env Map.empty"

subsection \<open>Argument lists\<close>

definition strConcat :: "string list \<Rightarrow> string list \<Rightarrow> string list" where
  "strConcat arr1 arr2 =
     foldl (\<lambda>res s. res @ [s]) (foldl (\<lambda>res s. res @ [s]) [] arr1) arr2"

definition Append :: "Args \<Rightarrow> string list \<Rightarrow> Args" where
  "Append a toAppend = \<lparr> args = strConcat (args a) toAppend \<rparr>"

subsection \<open>Creating directories\<close>

text \<open>\<open>createDirCached\<close> looks \<open>dir\<close> up in \<open>createdDirs\<close> and calls \<open>os.MkdirAll\<close> when
  it is not there. Nothing in the program stores into \<open>createdDirs\<close>.\<close>

definition createDirCached :: "world \<Rightarrow> string \<Rightarrow> state \<Rightarrow> error + state" where
  "createDirCached w dir s =
     (case createdDirs s dir of
        Some _ \<Rightarrow> Inr s
      | None \<Rightarrow>
          (let s1 = s\<lparr>mkdirCalls := mkdirCalls s @ [dir]\<rparr>
           in if os_MkdirAll w dir then Inr s1 else Inl Fatal))"

definition createDirForFileCached :: "world \<Rightarrow> string \<Rightarrow> state \<Rightarrow> error + state" where
  "createDirForFileCached w path s = createDirCached w (filepath_Dir w path) s"

subsection \<open>Finding an executable\<close>

text \<open>The inner loop of \<open>lookupInEnvPathUncached\<close> over the directories of the search
  path: the first \<open>filepath.Join(dir, exeName)\<close> for which \<open>fileExists\<close> holds.\<close>

fun lookupInDirs :: "world \<Rightarrow> string \<Rightarrow> string list \<Rightarrow> state \<Rightarrow> string option \<times> state" where
  "lookupInDirs w exeName [] s = (None, s)"
| "lookupInDirs w exeName (dir # dirs) s =
     (let path = filepath_Join w dir exeName;
          (ex, s1) = fileExists w path s
      in if ex then (Some path, s1) else lookupInDirs w exeName dirs s1)"

text \<open>
  The outer loop over the environment. After \<open>parts = strings.Split(parts[1], ";")\<close> the
  argument \<open>parts[1]\<close> of \<open>fatalf\<close> is the second directory, so with fewer than two
  directories its evaluation panics before \<open>fatalf\<close> is called. When no variable is named
  \<open>path\<close> the loop ends and the function returns the empty string.
\<close>

fun lookupInEnv :: "world \<Rightarrow> string \<Rightarrow> string list \<Rightarrow> state \<Rightarrow> error + string \<times> state" where
  "lookupInEnv w exeName [] s = Inr ('''', s)"
| "lookupInEnv w exeName (envVar # env) s =
     (case SplitN2 (CHR ''='') envVar of
        [] \<Rightarrow> Inl IndexOutOfRange
      | p0 # rest \<Rightarrow>
          (if ToLower p0 \<noteq> ''path'' then lookupInEnv w exeName env s
           else
             (case rest of
                [] \<Rightarrow> Inl IndexOutOfRange
              | p1 # _ \<Rightarrow>
                  (let dirs = Split (CHR '';'') p1
                   in case lookupInDirs w exeName dirs s of
                        (Some path, s1) \<Rightarrow> Inr (path, s1)
                      | (None, s1) \<Rightarrow>
                          (if length dirs < 2 then Inl IndexOutOfRange else Inl Fatal)))))"

definition lookupInEnvPathUncached ::
  "world \<Rightarrow> string \<Rightarrow> string list \<Rightarrow> state \<Rightarrow> error + string \<times> state" where
  "lookupInEnvPathUncached w exeName env s =
     lookupInEnv w exeName env (s\<lparr>scans := scans s @ [exeName]\<rparr>)"


subsection \<open>Compiling\<close>

text \<open>
  \<open>runExe\<close> takes a slot of the semaphore, starts a goroutine for the task and returns.
  The state that the model returns is the one the calling goroutine leaves: the task is
  recorded in \<open>launched\<close>. What the started goroutine does while the caller goes on
  (\<open>runExeHelper\<close>: it resolves the executable with \<open>lookupInEnvPath\<close>, which fills
  \<open>cachedExePaths\<close> and \<open>fileInfoCache\<close>, runs the process and calls \<open>fatalf\<close> when it
  fails) is not part of that state, nor are the semaphore and the wait group. So the
  properties below say what \<open>rc\<close> and \<open>cl\<close> hand over to \<open>runExe\<close>, and nothing on the
  caches after a launch.
\<close>

definition runExe :: "string \<Rightarrow> string list \<Rightarrow> Args \<Rightarrow> state \<Rightarrow> state" where
  "runExe exeName env a s =
     s\<lparr>launched := launched s @ [\<lparr> taskExe = exeName, taskEnv = env, taskArgs = args a \<rparr>]\<rparr>"

definition rc :: "world \<Rightarrow> string \<Rightarrow> string \<Rightarrow> string list \<Rightarrow> Args \<Rightarrow> state \<Rightarrow> error + state" where
  "rc w src dst env a s =
     (case createDirForFileCached w dst s of
        Inl e \<Rightarrow> Inl e
      | Inr s1 \<Rightarrow>
          (let extraArgs = [''/Fo'' @ dst, src]
           in Inr (runExe ''rc.exe'' env (Append a extraArgs) s1)))"

definition cl :: "world \<Rightarrow> string \<Rightarrow> string \<Rightarrow> string list \<Rightarrow> Args \<Rightarrow> state \<Rightarrow> error + state" where
  "cl w src dst env a s =
     (let (outdated, s1) = isOutdated w src dst [] s
      in if \<not> outdated then Inr s1
         else
           (case createDirForFileCached w dst s1 of
              Inl e \<Rightarrow> Inl e
            | Inr s2 \<Rightarrow>
                (let extraArgs = [''/Fo'' @ dst, src]
                 in Inr (runExe ''cl.exe'' env (Append a extraArgs) s2))))"

subsection \<open>What the program sees of a path\<close>

text \<open>The information the program has or gets on a path: the cached entry when there is
  one, else what \<open>os.Stat\<close> returns. \<open>None\<close> is a path that does not exist.\<close>

definition observed :: "world \<Rightarrow> state \<Rightarrow> string \<Rightarrow> FileInfo option" where
  "observed w s path =
     (case fileInfoCache s path of Some fi \<Rightarrow> Some fi | None \<Rightarrow> os_Stat w path)"

text \<open>The fields that the freshness test leaves alone.\<close>

definition sameGhost :: "state \<Rightarrow> state \<Rightarrow> bool" where
  "sameGhost s s' \<longleftrightarrow>
     mkdirCalls s' = mkdirCalls s \<and> launched s' = launched s \<and> scans s' = scans s \<and>
     createdDirs s' = createdDirs s \<and> cachedExePaths s' = cachedExePaths s \<and>
     alwaysRebuild s' = alwaysRebuild s"

subsection \<open>Absolute paths\<close>



subsection \<open>Example inputs\<close>

definition fileInfo :: "bool \<Rightarrow> time \<Rightarrow> FileInfo" where
  "fileInfo r t = \<lparr> IsRegular = r, ModTime = t \<rparr>"

text \<open>A world with the files \<open>fs\<close>, a clock that starts at 100 and advances by one at every
  reading, directory creation that succeeds, and paths written with \<open>/\<close>.\<close>

definition exampleWorld :: "(string \<rightharpoonup> FileInfo) \<Rightarrow> world" where
  "exampleWorld fs =
     \<lparr> os_Stat = fs, time_Now = (\<lambda>k. 100 + int k), os_MkdirAll = (\<lambda>d. True),
       filepath_Join = (\<lambda>d n. d @ ''/'' @ n),
       filepath_Dir = (\<lambda>p. rev (tl (dropWhile (\<lambda>c. c \<noteq> CHR ''/'') (rev p)))),
       strings_ToUpper = ToUpperASCII \<rparr>"

text \<open>A source written at 10, its object file written at 20 and a header.\<close>

definition exampleFiles :: "time \<Rightarrow> string \<rightharpoonup> FileInfo" where
  "exampleFiles depTime =
     [''src/a.c'' \<mapsto> fileInfo True 10, ''rel/src/a.obj'' \<mapsto> fileInfo True 20,
      ''src/a.h'' \<mapsto> fileInfo True depTime]"

definition exampleFilesNoSource :: "string \<rightharpoonup> FileInfo" where
  "exampleFilesNoSource = [''rel/src/a.obj'' \<mapsto> fileInfo True 20]"

definition exampleTools :: "string \<rightharpoonup> FileInfo" where
  "exampleTools = [''C:/vc/bin/cl.exe'' \<mapsto> fileInfo True 5]"




definition exampleArgs :: Args where
  "exampleArgs = \<lparr> args = [''/nologo'', ''/c''] \<rparr>"

text \<open>The argument lists of the tasks launched so far, when the run has not been aborted.\<close>

definition launchedArgs :: "error + state \<Rightarrow> string list list option" where
  "launchedArgs r = (case r of Inl e \<Rightarrow> None | Inr s \<Rightarrow> Some (map taskArgs (launched s)))"

section \<open>Properties\<close>

lemmas example_defs = exampleWorld_def exampleFiles_def exampleFilesNoSource_def
  exampleTools_def fileInfo_def init_def

lemmas run_defs = isOutdated_def fileExists_def getModTime_def now_def

subsection \<open>Auxiliary facts\<close>

lemma Sub_pos: "0 < Sub t u \<longleftrightarrow> u < t"
  by (simp add: Sub_def Let_def maxDuration_def minDuration_def)

lemma foldl_snoc: "foldl (\<lambda>res s. res @ [s]) acc xs = acc @ xs"
  by (induction xs arbitrary: acc) simp_all

lemma strConcat_append: "strConcat arr1 arr2 = arr1 @ arr2"
  by (simp add: strConcat_def foldl_snoc)

lemma args_Append: "args (Append a xs) = args a @ xs"
  by (simp add: Append_def strConcat_append)

lemma fileExists_fst:
  "fst (fileExists w p s) = (case observed w s p of None \<Rightarrow> False | Some fi \<Rightarrow> IsRegular fi)"
  by (simp add: fileExists_def observed_def split: option.splits)

lemma getModTime_fst:
  "fst (getModTime w p d s) = (case observed w s p of None \<Rightarrow> d | Some fi \<Rightarrow> ModTime fi)"
  by (simp add: getModTime_def observed_def split: option.splits)

lemma fileExists_observed: "observed w (snd (fileExists w p s)) = observed w s"
  by (auto simp: fileExists_def observed_def fun_eq_iff split: option.splits)

lemma getModTime_observed: "observed w (snd (getModTime w p d s)) = observed w s"
  by (auto simp: getModTime_def observed_def fun_eq_iff split: option.splits)

lemma now_observed: "observed w (snd (now w s)) = observed w s"
  by (auto simp: now_def observed_def fun_eq_iff)

lemma sameGhost_refl: "sameGhost s s"
  by (simp add: sameGhost_def)

lemma sameGhost_trans: "sameGhost s s1 \<Longrightarrow> sameGhost s1 s2 \<Longrightarrow> sameGhost s s2"
  by (simp add: sameGhost_def)

lemma fileExists_ghost: "sameGhost s (snd (fileExists w p s))"
  by (simp add: fileExists_def sameGhost_def split: option.splits)

lemma getModTime_ghost: "sameGhost s (snd (getModTime w p d s))"
  by (simp add: getModTime_def sameGhost_def split: option.splits)

lemma now_ghost: "sameGhost s (snd (now w s))"
  by (simp add: now_def sameGhost_def)

lemma isOutdated_deps_ghost: "sameGhost s (snd (isOutdated_deps w t deps s))"
proof (induction deps arbitrary: s)
  case Nil
  show ?case by (simp add: sameGhost_refl)
next
  case (Cons path deps)
  obtain t0 s1 where n: "now w s = (t0, s1)" by (cases "now w s")
  obtain pt s2 where g: "getModTime w path t0 s1 = (pt, s2)" by (cases "getModTime w path t0 s1")
  have "sameGhost s s1" using now_ghost [of s w] n by simp
  moreover have "sameGhost s1 s2" using getModTime_ghost [of s1 w path t0] g by simp
  ultimately have a: "sameGhost s s2" by (rule sameGhost_trans)
  have b: "sameGhost s2 (snd (isOutdated_deps w t deps s2))" by (rule Cons.IH)
  show ?case using a sameGhost_trans [OF a b] by (simp add: n g)
qed

lemma isOutdated_ghost: "sameGhost s (snd (isOutdated w src dst deps s))"
proof (cases "alwaysRebuild s")
  case True
  then show ?thesis by (simp add: isOutdated_def sameGhost_refl)
next
  case False
  obtain ex s1 where e: "fileExists w dst s = (ex, s1)" by (cases "fileExists w dst s")
  have g1: "sameGhost s s1" using fileExists_ghost [of s w dst] e by simp
  show ?thesis
  proof (cases ex)
    case False
    with \<open>\<not> alwaysRebuild s\<close> e g1 show ?thesis by (simp add: isOutdated_def)
  next
    case True
    obtain t0 s2 where n0: "now w s1 = (t0, s2)" by (cases "now w s1")
    obtain dt s3 where m0: "getModTime w dst t0 s2 = (dt, s3)" by (cases "getModTime w dst t0 s2")
    obtain t1 s4 where n1: "now w s3 = (t1, s4)" by (cases "now w s3")
    obtain st s5 where m1: "getModTime w src t1 s4 = (st, s5)" by (cases "getModTime w src t1 s4")
    have "sameGhost s1 s2" using now_ghost [of s1 w] n0 by simp
    moreover have "sameGhost s2 s3" using getModTime_ghost [of s2 w dst t0] m0 by simp
    moreover have "sameGhost s3 s4" using now_ghost [of s3 w] n1 by simp
    moreover have "sameGhost s4 s5" using getModTime_ghost [of s4 w src t1] m1 by simp
    ultimately have g5: "sameGhost s s5" using g1 by (blast intro: sameGhost_trans)
    have g6: "sameGhost s (snd (isOutdated_deps w st deps s5))"
      using g5 isOutdated_deps_ghost by (rule sameGhost_trans)
    show ?thesis using \<open>\<not> alwaysRebuild s\<close> True e n0 m0 n1 m1 g5 g6
      by (simp add: isOutdated_def)
  qed
qed

lemma createDirCached_createdDirs:
  "createDirCached w dir s = Inr s' \<Longrightarrow> createdDirs s' = createdDirs s"
  by (auto simp: createDirCached_def Let_def split: option.splits if_splits)

lemma createDirCached_keeps:
  "createDirCached w dir s = Inr s' \<Longrightarrow>
     launched s' = launched s \<and> fileInfoCache s' = fileInfoCache s \<and> ticks s' = ticks s"
  by (auto simp: createDirCached_def Let_def split: option.splits if_splits)

lemma createDirCached_ok:
  "os_MkdirAll w dir \<Longrightarrow> \<exists>s'. createDirCached w dir s = Inr s'"
  by (simp add: createDirCached_def Let_def split: option.splits)



lemma rc_result:
  "rc w src dst env a s = Inr s' \<Longrightarrow>
     \<exists>s1. createDirCached w (filepath_Dir w dst) s = Inr s1 \<and>
          s' = s1\<lparr>launched := launched s1 @
                 [\<lparr> taskExe = ''rc.exe'', taskEnv = env, taskArgs = args a @ [''/Fo'' @ dst, src] \<rparr>]\<rparr>"
  by (auto simp: rc_def createDirForFileCached_def runExe_def args_Append Let_def
      split: sum.splits)

lemma cl_result:
  "cl w src dst env a s = Inr s' \<Longrightarrow>
     (\<not> fst (isOutdated w src dst [] s) \<and> s' = snd (isOutdated w src dst [] s)) \<or>
     (fst (isOutdated w src dst [] s) \<and>
      (\<exists>s2. createDirCached w (filepath_Dir w dst) (snd (isOutdated w src dst [] s)) = Inr s2 \<and>
          s' = s2\<lparr>launched := launched s2 @
                 [\<lparr> taskExe = ''cl.exe'', taskEnv = env, taskArgs = args a @ [''/Fo'' @ dst, src] \<rparr>]\<rparr>))"
  by (auto simp: cl_def createDirForFileCached_def runExe_def args_Append Let_def
      split: sum.splits prod.splits if_splits)

lemma ToLower_FOO: "ToLower ''FOO'' \<noteq> ''path''"
  by (simp add: ToLower_def)


subsection \<open>The freshness test\<close>

text \<open>
  What \<open>isOutdated\<close> computes when the switch is off and the destination, the source and
  the dependencies all exist: it returns true exactly when the source is newer than the
  destination or newer than some dependency.
\<close>

lemma isOutdated_deps_existing:
  assumes "\<forall>d \<in> set deps. observed w s d \<noteq> None"
  shows "fst (isOutdated_deps w srcTime deps s) \<longleftrightarrow>
         (\<exists>d \<in> set deps. \<exists>fi. observed w s d = Some fi \<and> ModTime fi < srcTime)"
  using assms
proof (induction deps arbitrary: s)
  case Nil
  show ?case by simp
next
  case (Cons path deps)
  obtain t0 s1 where n: "now w s = (t0, s1)" by (cases "now w s")
  obtain pt s2 where g: "getModTime w path t0 s1 = (pt, s2)" by (cases "getModTime w path t0 s1")
  have o1: "observed w s1 = observed w s" using now_observed [of w s] n by simp
  have o2: "observed w s2 = observed w s" using getModTime_observed [of w path t0 s1] g o1 by simp
  from Cons.prems obtain fi where fi: "observed w s path = Some fi" by auto
  have pt: "pt = ModTime fi" using getModTime_fst [of w path t0 s1] g o1 fi by simp
  have ih: "fst (isOutdated_deps w srcTime deps s2) \<longleftrightarrow>
         (\<exists>d \<in> set deps. \<exists>fi. observed w s d = Some fi \<and> ModTime fi < srcTime)"
    using Cons.IH [of s2] Cons.prems o2 by simp
  show ?case
    using ih fi pt by (auto simp: n g Sub_pos)
qed

lemma isOutdated_existing:
  assumes "\<not> alwaysRebuild s"
    and "observed w s dst = Some di"
    and "IsRegular di"
    and "observed w s src = Some si"
    and "\<forall>d \<in> set deps. observed w s d \<noteq> None"
  shows "fst (isOutdated w src dst deps s) \<longleftrightarrow>
         ModTime di < ModTime si \<or>
         (\<exists>d \<in> set deps. \<exists>fi. observed w s d = Some fi \<and> ModTime fi < ModTime si)"
proof -
  obtain ex s1 where e: "fileExists w dst s = (ex, s1)" by (cases "fileExists w dst s")
  have ex: "ex" using fileExists_fst [of w dst s] e assms by simp
  have o1: "observed w s1 = observed w s" using fileExists_observed [of w dst s] e by simp
  obtain t0 s2 where n0: "now w s1 = (t0, s2)" by (cases "now w s1")
  have o2: "observed w s2 = observed w s" using now_observed [of w s1] n0 o1 by simp
  obtain dt s3 where m0: "getModTime w dst t0 s2 = (dt, s3)" by (cases "getModTime w dst t0 s2")
  have o3: "observed w s3 = observed w s" using getModTime_observed [of w dst t0 s2] m0 o2 by simp
  have dt: "dt = ModTime di" using getModTime_fst [of w dst t0 s2] m0 o2 assms by simp
  obtain t1 s4 where n1: "now w s3 = (t1, s4)" by (cases "now w s3")
  have o4: "observed w s4 = observed w s" using now_observed [of w s3] n1 o3 by simp
  obtain st s5 where m1: "getModTime w src t1 s4 = (st, s5)" by (cases "getModTime w src t1 s4")
  have o5: "observed w s5 = observed w s" using getModTime_observed [of w src t1 s4] m1 o4 by simp
  have st: "st = ModTime si" using getModTime_fst [of w src t1 s4] m1 o4 assms by simp
  have deps: "fst (isOutdated_deps w st deps s5) \<longleftrightarrow>
      (\<exists>d \<in> set deps. \<exists>fi. observed w s d = Some fi \<and> ModTime fi < st)"
    using isOutdated_deps_existing [of deps w s5 st] assms(5) o5 by simp
  show ?thesis
    using assms(1) ex deps dt st by (auto simp: isOutdated_def e n0 m0 n1 m1 Sub_pos)
qed

text \<open>
  C1. The claim: with the force-rebuild switch off, the destination a regular file and
  not older than the source, a dependency strictly newer than the source makes
  \<open>isOutdated\<close> return true. The loop tests \<open>srcTime.Sub(pathTime) > 0\<close>, that is whether
  the source is newer than the dependency. Here the source is of time 10, the destination
  of time 20 and the dependency of time 30, newer than both: \<open>isOutdated\<close> returns false.
\<close>

theorem isOutdated_newer_dependency_example:
  "fst (isOutdated (exampleWorld (exampleFiles 30)) ''src/a.c'' ''rel/src/a.obj'' [''src/a.h''] init)
     = False"
  by (simp add: run_defs example_defs Sub_pos)

text \<open>
  C2. The claim: with the force-rebuild switch off and the destination a regular file
  strictly newer than the source and than every dependency, \<open>isOutdated\<close> returns false.
  Here the source is of time 10, the dependency of time 5 and the destination of time 20,
  newer than both: \<open>isOutdated\<close> returns true, since the source is newer than the
  dependency.
\<close>

theorem isOutdated_older_dependency_example:
  "fst (isOutdated (exampleWorld (exampleFiles 5)) ''src/a.c'' ''rel/src/a.obj'' [''src/a.h''] init)
     = True"
  by (simp add: run_defs example_defs Sub_pos)

text \<open>
  C3, as claimed: a path that does not exist counts as infinitely old, so a missing source
  never makes an existing destination stale. It fails: the source does not exist, the
  destination is a regular file of time 20, there is no dependency and the switch is
  off, and \<open>isOutdated\<close> returns true.
\<close>

theorem isOutdated_missing_source_counterexample:
  "os_Stat (exampleWorld exampleFilesNoSource) ''src/a.c'' = None \<and>
   fileInfoCache init ''src/a.c'' = None \<and>
   \<not> alwaysRebuild init \<and>
   fst (fileExists (exampleWorld exampleFilesNoSource) ''rel/src/a.obj'' init) \<and>
   fst (isOutdated (exampleWorld exampleFilesNoSource) ''src/a.c'' ''rel/src/a.obj'' [] init)"
  by (simp add: run_defs example_defs Sub_pos)

text \<open>
  C3, amended: for a path that does not exist \<open>getModTime\<close> returns the default it is
  given, and \<open>isOutdated\<close> gives it the clock's reading at that moment, so a missing path
  counts as modified now. With the switch off, the destination a regular file and the
  source missing, the comparison of source and destination makes the destination stale
  exactly when the destination's time is before the reading taken for the source (the
  second one of the call); then \<open>isOutdated\<close> returns true whatever the dependencies.
\<close>

theorem isOutdated_missing_source:
  assumes "\<not> alwaysRebuild s"
    and "observed w s dst = Some di"
    and "IsRegular di"
    and "observed w s src = None"
  shows "fst (getModTime w src def s) = def \<and>
         (fst (isOutdated w src dst [] s) \<longleftrightarrow> ModTime di < time_Now w (Suc (ticks s))) \<and>
         (ModTime di < time_Now w (Suc (ticks s)) \<longrightarrow> fst (isOutdated w src dst deps s))"
  using assms
  by (auto simp: run_defs observed_def Sub_pos split: option.splits)

theorem isOutdated_missing_source_witness:
  "fst (getModTime (exampleWorld exampleFilesNoSource) ''src/a.c'' 7 init) = 7 \<and>
   fst (isOutdated (exampleWorld exampleFilesNoSource) ''src/a.c'' ''rel/src/a.obj'' [] init) \<and>
   ModTime (fileInfo True 20) < time_Now (exampleWorld exampleFilesNoSource) (Suc (ticks init)) \<and>
   fst (isOutdated (exampleWorld exampleFilesNoSource) ''src/a.c'' ''rel/src/a.obj'' [''src/a.h''] init)"
proof -
  let ?w = "exampleWorld exampleFilesNoSource"
  have h1: "\<not> alwaysRebuild init" by (simp add: init_def)
  have h2: "observed ?w init ''rel/src/a.obj'' = Some (fileInfo True 20)"
    by (simp add: observed_def example_defs)
  have h3: "IsRegular (fileInfo True 20)" by (simp add: fileInfo_def)
  have h4: "observed ?w init ''src/a.c'' = None" by (simp add: observed_def example_defs)
  have h5: "ModTime (fileInfo True 20) < time_Now ?w (Suc (ticks init))"
    by (simp add: example_defs)
  show ?thesis
    using isOutdated_missing_source [OF h1 h2 h3 h4, of 7 "[''src/a.h'']"] h5 by simp
qed

subsection \<open>Finding an executable\<close>

text \<open>
  C5. The claim: the lookup aborts the run when no variable of the environment is named
  \<open>path\<close>. Here the environment is the single variable \<open>FOO=bar\<close>:
  \<open>lookupInEnvPathUncached\<close> returns the empty string and the run goes on.
\<close>

theorem lookupInEnvPathUncached_no_path_example:
  "map_sum id fst (lookupInEnvPathUncached (exampleWorld exampleTools) ''cl.exe'' [''FOO=bar''] init)
     = Inr []"
  by (simp add: lookupInEnvPathUncached_def SplitN2_def ToLower_FOO)




subsection \<open>Creating directories\<close>

text \<open>
  C8. The claim: a directory that has been ensured once is recorded in the set, and a
  later call for it returns without another creation call. Here \<open>createDirCached\<close> runs
  twice for \<open>rel\<close> from the initial state: after the first call \<open>rel\<close> is not in
  \<open>createdDirs\<close>, and the second call makes a second call of \<open>os.MkdirAll\<close>.
\<close>

theorem createDirCached_twice_example:
  "(case createDirCached (exampleWorld Map.empty) ''rel'' init of
      Inl e \<Rightarrow> False
    | Inr s1 \<Rightarrow>
        createdDirs s1 ''rel'' = None \<and>
        map_sum id mkdirCalls (createDirCached (exampleWorld Map.empty) ''rel'' s1)
          = Inr [''rel'', ''rel''])"
  by (simp add: createDirCached_def example_defs)

subsection \<open>Compiling\<close>

text \<open>
  C6. \<open>cl\<close> asks \<open>isOutdated\<close>: when the answer is that the destination is up to date,
  \<open>cl\<close> returns with no call of \<open>os.MkdirAll\<close> and no task launched; when the answer is
  that it is outdated (and the directory can be created) \<open>cl\<close> launches \<open>cl.exe\<close> with
  the caller's flags, \<open>/Fo<dst>\<close> and the source. \<open>rc\<close> does not ask: whenever the
  directory can be created, whatever the files' times and the switch, it builds the
  argument list (the caller's flags, \<open>/Fo<dst>\<close>, the source) and launches \<open>rc.exe\<close> with
  it in the caller's environment, and it does not read the clock.
\<close>

theorem cl_checks_freshness_rc_does_not:
  "(\<not> fst (isOutdated w src dst [] s) \<longrightarrow>
      (\<exists>s'. cl w src dst env a s = Inr s' \<and> mkdirCalls s' = mkdirCalls s \<and>
            launched s' = launched s)) \<and>
   (fst (isOutdated w src dst [] s) \<and> os_MkdirAll w (filepath_Dir w dst) \<longrightarrow>
      (\<exists>s'. cl w src dst env a s = Inr s' \<and>
            launched s' = launched s @
              [\<lparr> taskExe = ''cl.exe'', taskEnv = env,
                 taskArgs = args a @ [''/Fo'' @ dst, src] \<rparr>])) \<and>
   (os_MkdirAll w (filepath_Dir w dst) \<longrightarrow>
      (\<exists>s'. rc w src dst env a s = Inr s' \<and>
            launched s' = launched s @
              [\<lparr> taskExe = ''rc.exe'', taskEnv = env,
                 taskArgs = args a @ [''/Fo'' @ dst, src] \<rparr>] \<and>
            ticks s' = ticks s))"
proof (intro conjI impI)
  assume fresh: "\<not> fst (isOutdated w src dst [] s)"
  have "sameGhost s (snd (isOutdated w src dst [] s))" by (rule isOutdated_ghost)
  then have "mkdirCalls (snd (isOutdated w src dst [] s)) = mkdirCalls s"
    and "launched (snd (isOutdated w src dst [] s)) = launched s"
    by (simp_all add: sameGhost_def)
  moreover have "cl w src dst env a s = Inr (snd (isOutdated w src dst [] s))"
    using fresh by (cases "isOutdated w src dst [] s") (simp add: cl_def)
  ultimately show "\<exists>s'. cl w src dst env a s = Inr s' \<and> mkdirCalls s' = mkdirCalls s \<and>
      launched s' = launched s"
    by simp
next
  let ?s1 = "snd (isOutdated w src dst [] s)"
  assume "fst (isOutdated w src dst [] s) \<and> os_MkdirAll w (filepath_Dir w dst)"
  then have stale: "fst (isOutdated w src dst [] s)"
    and ok: "os_MkdirAll w (filepath_Dir w dst)"
    by simp_all
  obtain s2 where c: "createDirCached w (filepath_Dir w dst) ?s1 = Inr s2"
    using ok createDirCached_ok by blast
  have "sameGhost s ?s1" by (rule isOutdated_ghost)
  then have "launched ?s1 = launched s" by (simp add: sameGhost_def)
  moreover have "launched s2 = launched ?s1" using createDirCached_keeps [OF c] by simp
  moreover have "cl w src dst env a s =
      Inr (runExe ''cl.exe'' env (Append a [''/Fo'' @ dst, src]) s2)"
    using stale c by (cases "isOutdated w src dst [] s") (simp add: cl_def createDirForFileCached_def)
  ultimately show "\<exists>s'. cl w src dst env a s = Inr s' \<and>
      launched s' = launched s @
        [\<lparr> taskExe = ''cl.exe'', taskEnv = env, taskArgs = args a @ [''/Fo'' @ dst, src] \<rparr>]"
    by (simp add: runExe_def args_Append)
next
  assume ok: "os_MkdirAll w (filepath_Dir w dst)"
  then obtain s1 where c: "createDirCached w (filepath_Dir w dst) s = Inr s1"
    using createDirCached_ok by blast
  have k: "launched s1 = launched s \<and> fileInfoCache s1 = fileInfoCache s \<and> ticks s1 = ticks s"
    using c by (rule createDirCached_keeps)
  have "rc w src dst env a s = Inr (runExe ''rc.exe'' env (Append a [''/Fo'' @ dst, src]) s1)"
    using c by (simp add: rc_def createDirForFileCached_def)
  then show "\<exists>s'. rc w src dst env a s = Inr s' \<and>
      launched s' = launched s @
        [\<lparr> taskExe = ''rc.exe'', taskEnv = env, taskArgs = args a @ [''/Fo'' @ dst, src] \<rparr>] \<and>
      ticks s' = ticks s"
    using k by (simp add: runExe_def args_Append)
qed

theorem cl_checks_freshness_rc_does_not_witness:
  "\<not> fst (isOutdated (exampleWorld (exampleFiles 30)) ''src/a.c'' ''rel/src/a.obj'' [] init) \<and>
   launchedArgs (cl (exampleWorld (exampleFiles 30)) ''src/a.c'' ''rel/src/a.obj'' [] exampleArgs init)
     = Some [] \<and>
   map_sum id mkdirCalls
     (cl (exampleWorld (exampleFiles 30)) ''src/a.c'' ''rel/src/a.obj'' [] exampleArgs init)
     = Inr [] \<and>
   os_MkdirAll (exampleWorld (exampleFiles 30))
     (filepath_Dir (exampleWorld (exampleFiles 30)) ''rel/src/a.obj'') \<and>
   map_sum id launched
     (rc (exampleWorld (exampleFiles 30)) ''src/a.c'' ''rel/src/a.obj'' [''A=1''] exampleArgs init)
     = Inr [\<lparr> taskExe = ''rc.exe'', taskEnv = [''A=1''],
              taskArgs = [''/nologo'', ''/c'', ''/Forel/src/a.obj'', ''src/a.c''] \<rparr>] \<and>
   fst (isOutdated (exampleWorld Map.empty) ''src/a.c'' ''rel/src/a.obj'' [] init) \<and>
   map_sum id launched
     (cl (exampleWorld Map.empty) ''src/a.c'' ''rel/src/a.obj'' [''A=1''] exampleArgs init)
     = Inr [\<lparr> taskExe = ''cl.exe'', taskEnv = [''A=1''],
              taskArgs = [''/nologo'', ''/c'', ''/Forel/src/a.obj'', ''src/a.c''] \<rparr>]"
proof -
  let ?w = "exampleWorld (exampleFiles 30)"
  let ?v = "exampleWorld Map.empty"
  have h1: "\<not> fst (isOutdated ?w ''src/a.c'' ''rel/src/a.obj'' [] init)"
    by (simp add: run_defs example_defs Sub_pos)
  have h2: "os_MkdirAll ?w (filepath_Dir ?w ''rel/src/a.obj'')"
    by (simp add: exampleWorld_def)
  have h3: "fst (isOutdated ?v ''src/a.c'' ''rel/src/a.obj'' [] init)"
    by (simp add: run_defs example_defs)
  have h4: "os_MkdirAll ?v (filepath_Dir ?v ''rel/src/a.obj'')"
    by (simp add: exampleWorld_def)
  have i: "launched init = []" "mkdirCalls init = []" by (simp_all add: init_def)
  show ?thesis
    using cl_checks_freshness_rc_does_not [of ?w "''src/a.c''" "''rel/src/a.obj''" init "[]" exampleArgs]
      cl_checks_freshness_rc_does_not [of ?w "''src/a.c''" "''rel/src/a.obj''" init "[''A=1'']" exampleArgs]
      cl_checks_freshness_rc_does_not [of ?v "''src/a.c''" "''rel/src/a.obj''" init "[''A=1'']" exampleArgs]
      h1 h2 h3 h4 i
    by (auto simp: launchedArgs_def exampleArgs_def)
qed

text \<open>
  C7, as claimed: the argument \<open>/Fo<dst>\<close> comes first, then the caller's flags, then the
  source. It fails: for the flags \<open>/nologo /c\<close> the task that \<open>rc\<close> launches has the
  arguments \<open>/nologo /c /Forel/src/a.res src/a.rc\<close>, the flags first.
\<close>

theorem rc_argument_order_counterexample:
  "launchedArgs (rc (exampleWorld Map.empty) ''src/a.rc'' ''rel/src/a.res'' [] exampleArgs init)
     = Some [[''/nologo'', ''/c'', ''/Forel/src/a.res'', ''src/a.rc'']] \<and>
   launchedArgs (rc (exampleWorld Map.empty) ''src/a.rc'' ''rel/src/a.res'' [] exampleArgs init)
     \<noteq> Some [[''/Forel/src/a.res'', ''/nologo'', ''/c'', ''src/a.rc'']]"
  by (simp add: launchedArgs_def rc_def createDirForFileCached_def createDirCached_def
      runExe_def args_Append exampleArgs_def example_defs)

text \<open>
  C7, amended: the arguments of every task that \<open>rc\<close> or \<open>cl\<close> launches are the caller's
  flags in their order, then \<open>/Fo<dst>\<close>, then the source path, which is last. (\<open>rc\<close>
  that returns has launched one task; \<open>cl\<close> that returns has launched one or none.)
\<close>

theorem compile_arguments:
  "(rc w src dst env a s = Inr s' \<longrightarrow>
      (\<exists>t. launched s' = launched s @ [t] \<and> taskArgs t = args a @ [''/Fo'' @ dst, src])) \<and>
   (cl w src dst env a s = Inr s'' \<longrightarrow>
      launched s'' = launched s \<or>
      (\<exists>t. launched s'' = launched s @ [t] \<and> taskArgs t = args a @ [''/Fo'' @ dst, src]))"
proof (intro conjI impI)
  assume "rc w src dst env a s = Inr s'"
  then obtain s1 where c: "createDirCached w (filepath_Dir w dst) s = Inr s1"
    and s': "s' = s1\<lparr>launched := launched s1 @
       [\<lparr> taskExe = ''rc.exe'', taskEnv = env, taskArgs = args a @ [''/Fo'' @ dst, src] \<rparr>]\<rparr>"
    using rc_result by blast
  have "launched s1 = launched s" using createDirCached_keeps [OF c] by simp
  with s' show "\<exists>t. launched s' = launched s @ [t] \<and> taskArgs t = args a @ [''/Fo'' @ dst, src]"
    by simp
next
  let ?s1 = "snd (isOutdated w src dst [] s)"
  assume r: "cl w src dst env a s = Inr s''"
  have g: "launched ?s1 = launched s"
    using isOutdated_ghost [of s w src dst "[]"] by (simp add: sameGhost_def)
  from cl_result [OF r] show "launched s'' = launched s \<or>
      (\<exists>t. launched s'' = launched s @ [t] \<and> taskArgs t = args a @ [''/Fo'' @ dst, src])"
  proof
    assume "\<not> fst (isOutdated w src dst [] s) \<and> s'' = ?s1"
    with g show ?thesis by simp
  next
    assume "fst (isOutdated w src dst [] s) \<and>
      (\<exists>s2. createDirCached w (filepath_Dir w dst) ?s1 = Inr s2 \<and>
          s'' = s2\<lparr>launched := launched s2 @
                 [\<lparr> taskExe = ''cl.exe'', taskEnv = env, taskArgs = args a @ [''/Fo'' @ dst, src] \<rparr>]\<rparr>)"
    then obtain s2 where c: "createDirCached w (filepath_Dir w dst) ?s1 = Inr s2"
      and s'': "s'' = s2\<lparr>launched := launched s2 @
                 [\<lparr> taskExe = ''cl.exe'', taskEnv = env, taskArgs = args a @ [''/Fo'' @ dst, src] \<rparr>]\<rparr>"
      by blast
    have "launched s2 = launched ?s1" using createDirCached_keeps [OF c] by simp
    with g s'' show ?thesis by simp
  qed
qed

theorem compile_arguments_witness:
  "launchedArgs (rc (exampleWorld Map.empty) ''src/a.rc'' ''rel/src/a.res'' [] exampleArgs init)
     = Some [args exampleArgs @ [''/Forel/src/a.res'', ''src/a.rc'']] \<and>
   launchedArgs (cl (exampleWorld Map.empty) ''src/a.c'' ''rel/src/a.obj'' [] exampleArgs init)
     = Some [args exampleArgs @ [''/Forel/src/a.obj'', ''src/a.c'']]"
proof -
  let ?w = "exampleWorld Map.empty"
  let ?s1 = "init\<lparr>mkdirCalls := [''rel/src''],
      launched := [\<lparr> taskExe = ''rc.exe'', taskEnv = [],
                     taskArgs = [''/nologo'', ''/c'', ''/Forel/src/a.res'', ''src/a.rc''] \<rparr>]\<rparr>"
  let ?s2 = "init\<lparr>mkdirCalls := [''rel/src''],
      launched := [\<lparr> taskExe = ''cl.exe'', taskEnv = [],
                     taskArgs = [''/nologo'', ''/c'', ''/Forel/src/a.obj'', ''src/a.c''] \<rparr>]\<rparr>"
  have e1: "rc ?w ''src/a.rc'' ''rel/src/a.res'' [] exampleArgs init = Inr ?s1"
    by (simp add: rc_def createDirForFileCached_def createDirCached_def runExe_def args_Append
        exampleArgs_def example_defs)
  have e2: "cl ?w ''src/a.c'' ''rel/src/a.obj'' [] exampleArgs init = Inr ?s2"
    by (simp add: cl_def run_defs createDirForFileCached_def createDirCached_def runExe_def
        args_Append exampleArgs_def example_defs)
  have i: "launched init = []" by (simp add: init_def)
  show ?thesis
    using compile_arguments [of ?w "''src/a.rc''" "''rel/src/a.res''" "[]" exampleArgs init ?s1]
      compile_arguments [of ?w "''src/a.c''" "''rel/src/a.obj''" "[]" exampleArgs init _ ?s2]
      e1 e2 i
    by (simp add: launchedArgs_def exampleArgs_def)
qed

subsection \<open>Parsing an environment\<close>

text \<open>
  C10. The claim: \<open>envToMap\<close> returns a mapping for every list of lines, also for a line
  that is not empty and has no \<open>=\<close>. Here the only line is \<open>FOO\<close>: the access
  \<open>parts[1]\<close> is out of range and \<open>envToMap\<close> panics.
\<close>

theorem envToMap_no_equals_example: "envToMap w [''FOO''] = Inl IndexOutOfRange"
  by (simp add: envToMap_def SplitN2_def)

end
